theory Spec2Isabelle
  imports Main "HOL-Library.Sublist" "HOL-Library.Multiset"
begin

section \<open>The question builder: schema, store and derived views\<close>

text \<open>
  A shallow embedding of \<^verbatim>\<open>apps/question-builder/src/App.tsx\<close>: the zod schema
  \<^verbatim>\<open>questionSchema\<close>, the zustand store \<^verbatim>\<open>useQuestionStore\<close> with its four
  members, and the two derived values \<^verbatim>\<open>categories\<close> and \<^verbatim>\<open>filteredQuestions\<close>
  that the component computes from the store's collection.

  Strings are \<open>string\<close>; \<^verbatim>\<open>===\<close> on two strings is HOL equality (exact, case
  sensitive). A \<^verbatim>\<open>Date\<close> is its time value, a number of milliseconds, as a \<open>nat\<close>.
\<close>

subsection \<open>Data model\<close>

text \<open>The two \<^verbatim>\<open>z.enum\<close> fields.\<close>

datatype question_type = multiple_choice | true_false | short_answer

datatype difficulty_level = easy | medium | hard

text \<open>
  \<^verbatim>\<open>type QuestionForm = z.infer<typeof questionSchema>\<close>. The field \<^verbatim>\<open>options\<close> is
  optional: \<open>None\<close> is \<^verbatim>\<open>undefined\<close>.
\<close>

record QuestionForm =
  type :: question_type
  question :: string
  options :: "string list option"
  correctAnswer :: string
  difficulty :: difficulty_level
  category :: string

text \<open>
  \<^verbatim>\<open>interface Question extends QuestionForm { id: string; createdAt: Date }\<close>.
  The field \<^verbatim>\<open>id\<close> is named \<open>id_key\<close> here, since \<open>id\<close> is HOL's identity function.
\<close>

record Question = QuestionForm +
  id_key :: string
  createdAt :: nat

text \<open>
  \<^verbatim>\<open>Partial<Question>\<close>, the second argument of \<^verbatim>\<open>updateQuestion\<close>: every field of
  \<^verbatim>\<open>Question\<close>, \<^verbatim>\<open>id\<close> and \<^verbatim>\<open>createdAt\<close> included, may be present or absent.
  \<open>None\<close> is an absent key, \<open>Some v\<close> a key present with value \<open>v\<close>; for \<^verbatim>\<open>options\<close>
  the value may itself be \<^verbatim>\<open>undefined\<close> (\<open>Some None\<close>).
\<close>

record PartialQuestion =
  type_p :: "question_type option"
  question_p :: "string option"
  options_p :: "string list option option"
  correctAnswer_p :: "string option"
  difficulty_p :: "difficulty_level option"
  category_p :: "string option"
  id_p :: "string option"
  createdAt_p :: "nat option"

text \<open>The store's data: the \<^verbatim>\<open>questions\<close> array, in insertion order.\<close>

record QuestionStore =
  questions :: "Question list"

text \<open>
  What a call of a store member hands back to its caller: a returned value or a thrown
  error. All members of \<^verbatim>\<open>QuestionStore\<close> that mutate are declared \<^verbatim>\<open>=> void\<close> and
  are arrow functions whose body is the call of zustand's \<^verbatim>\<open>set\<close>, so each of them returns
  \<^verbatim>\<open>undefined\<close>; the source has no \<^verbatim>\<open>throw\<close>.
\<close>

datatype store_error = NotFoundError

datatype js_value = Undefined | Boolean bool

datatype completion = Returns js_value | Throws store_error

subsection \<open>The schema\<close>

text \<open>
  The input of the schema as the form hands it over: each key is missing (\<open>None\<close>) or
  holds a string, \<^verbatim>\<open>options\<close> is missing or holds an array of strings. Values of other
  JavaScript types are outside this model.
\<close>

record Candidate =
  raw_type :: "string option"
  raw_question :: "string option"
  raw_options :: "string list option"
  raw_correctAnswer :: "string option"
  raw_difficulty :: "string option"
  raw_category :: "string option"

text \<open>
  A zod issue: the key it is reported on, zod's issue code, and the message when the
  schema gives one (\<open>None\<close>: zod's default message).
\<close>

datatype issue_code = invalid_type | invalid_enum_value | too_small

record issue =
  path :: string
  code :: issue_code
  message :: "string option"

text \<open>\<^verbatim>\<open>z.enum(["multiple-choice", "true-false", "short-answer"])\<close> under the key \<open>k\<close>.\<close>

definition type_enum :: "string \<Rightarrow> string option \<Rightarrow> issue list + question_type" where
  "type_enum k v =
     (case v of
        None \<Rightarrow> Inl [\<lparr>path = k, code = invalid_type, message = None\<rparr>]
      | Some s \<Rightarrow>
          if s = ''multiple-choice'' then Inr multiple_choice
          else if s = ''true-false'' then Inr true_false
          else if s = ''short-answer'' then Inr short_answer
          else Inl [\<lparr>path = k, code = invalid_enum_value, message = None\<rparr>])"

text \<open>\<^verbatim>\<open>z.enum(["easy", "medium", "hard"])\<close> under the key \<open>k\<close>.\<close>

definition difficulty_enum :: "string \<Rightarrow> string option \<Rightarrow> issue list + difficulty_level" where
  "difficulty_enum k v =
     (case v of
        None \<Rightarrow> Inl [\<lparr>path = k, code = invalid_type, message = None\<rparr>]
      | Some s \<Rightarrow>
          if s = ''easy'' then Inr easy
          else if s = ''medium'' then Inr medium
          else if s = ''hard'' then Inr hard
          else Inl [\<lparr>path = k, code = invalid_enum_value, message = None\<rparr>])"

text \<open>\<^verbatim>\<open>z.string().min(1, msg)\<close> under the key \<open>k\<close>: a string of length at least 1.\<close>

definition string_min1 :: "string \<Rightarrow> string \<Rightarrow> string option \<Rightarrow> issue list + string" where
  "string_min1 k msg v =
     (case v of
        None \<Rightarrow> Inl [\<lparr>path = k, code = invalid_type, message = None\<rparr>]
      | Some s \<Rightarrow>
          if length s < 1 then Inl [\<lparr>path = k, code = too_small, message = Some msg\<rparr>]
          else Inr s)"

text \<open>
  \<^verbatim>\<open>z.array(z.string()).optional()\<close>: a missing key is accepted, and so is every array
  of strings, of any length and with any entries.
\<close>

definition string_array_optional :: "string list option \<Rightarrow> issue list + string list option" where
  "string_array_optional v = Inr v"

text \<open>The issues of one key (none when the key parses).\<close>

definition issues_of :: "issue list + 'a \<Rightarrow> issue list" where
  "issues_of r = (case r of Inl e \<Rightarrow> e | Inr _ \<Rightarrow> [])"

text \<open>
  Parsing with \<^verbatim>\<open>questionSchema\<close>, as \<^verbatim>\<open>zodResolver(questionSchema)\<close> does on submit.
  \<^verbatim>\<open>z.object\<close> parses every key of its shape, in the order of the shape, and collects
  the issues of all of them; with no issue the result is the object of the parsed values.
\<close>

definition questionSchema :: "Candidate \<Rightarrow> issue list + QuestionForm" where
  "questionSchema c =
     (let t = type_enum ''type'' (raw_type c);
          q = string_min1 ''question'' ''Question is required'' (raw_question c);
          os = string_array_optional (raw_options c);
          a = string_min1 ''correctAnswer'' ''Correct answer is required'' (raw_correctAnswer c);
          d = difficulty_enum ''difficulty'' (raw_difficulty c);
          g = string_min1 ''category'' ''Category is required'' (raw_category c)
      in case (t, q, os, a, d, g) of
           (Inr t', Inr q', Inr os', Inr a', Inr d', Inr g') \<Rightarrow>
             Inr \<lparr>type = t', question = q', options = os', correctAnswer = a',
                  difficulty = d', category = g'\<rparr>
         | _ \<Rightarrow>
             Inl (issues_of t @ issues_of q @ issues_of os @ issues_of a @
                  issues_of d @ issues_of g))"

subsection \<open>The store\<close>

text \<open>
  \<^verbatim>\<open>Date.now().toString()\<close>: the decimal digits of a non-negative integer (the clock's
  reading in milliseconds is far below the range where JavaScript switches to exponent
  notation).
\<close>

definition digit_char :: "nat \<Rightarrow> char" where
  "digit_char d = ''0123456789'' ! d"

fun toString :: "nat \<Rightarrow> string" where
  "toString n = (if n < 10 then [digit_char n] else toString (n div 10) @ [digit_char (n mod 10)])"

declare toString.simps [simp del]

text \<open>
  The initial state of the store. Its two \<^verbatim>\<open>new Date()\<close> are read when the module is
  loaded; \<open>t1\<close> and \<open>t2\<close> are those two readings of the clock.
\<close>

definition initialState :: "nat \<Rightarrow> nat \<Rightarrow> QuestionStore" where
  "initialState t1 t2 =
     \<lparr>questions =
        [\<lparr>type = multiple_choice,
          question = ''What is the capital of France?'',
          options = Some [''London'', ''Berlin'', ''Paris'', ''Madrid''],
          correctAnswer = ''Paris'',
          difficulty = easy,
          category = ''Geography'',
          id_key = ''1'',
          createdAt = t1\<rparr>,
         \<lparr>type = true_false,
          question = ''The Earth is flat.'',
          options = None,
          correctAnswer = ''False'',
          difficulty = easy,
          category = ''Science'',
          id_key = ''2'',
          createdAt = t2\<rparr>]\<rparr>"

text \<open>
  \<^verbatim>\<open>{ ...question, id: Date.now().toString(), createdAt: new Date() }\<close>: the fields of
  the argument, then \<^verbatim>\<open>id\<close> and \<^verbatim>\<open>createdAt\<close>. \<open>now\<close> is the reading of \<^verbatim>\<open>Date.now()\<close>,
  \<open>date\<close> the time value of \<^verbatim>\<open>new Date()\<close>.
\<close>

definition newQuestion :: "QuestionForm \<Rightarrow> nat \<Rightarrow> nat \<Rightarrow> Question" where
  "newQuestion q now date =
     \<lparr>type = type q, question = question q, options = options q,
      correctAnswer = correctAnswer q, difficulty = difficulty q, category = category q,
      id_key = toString now, createdAt = date\<rparr>"

definition addQuestion :: "QuestionForm \<Rightarrow> nat \<Rightarrow> nat \<Rightarrow> QuestionStore \<Rightarrow> completion \<times> QuestionStore" where
  "addQuestion q now date state =
     (Returns Undefined, state\<lparr>questions := questions state @ [newQuestion q now date]\<rparr>)"

text \<open>
  \<^verbatim>\<open>{ ...q, ...updatedQuestion }\<close>: every key present in \<^verbatim>\<open>updatedQuestion\<close> replaces the
  value of \<^verbatim>\<open>q\<close>, every other key keeps it.
\<close>

definition spread :: "Question \<Rightarrow> PartialQuestion \<Rightarrow> Question" where
  "spread q u =
     \<lparr>type = (case type_p u of None \<Rightarrow> type q | Some v \<Rightarrow> v),
      question = (case question_p u of None \<Rightarrow> question q | Some v \<Rightarrow> v),
      options = (case options_p u of None \<Rightarrow> options q | Some v \<Rightarrow> v),
      correctAnswer = (case correctAnswer_p u of None \<Rightarrow> correctAnswer q | Some v \<Rightarrow> v),
      difficulty = (case difficulty_p u of None \<Rightarrow> difficulty q | Some v \<Rightarrow> v),
      category = (case category_p u of None \<Rightarrow> category q | Some v \<Rightarrow> v),
      id_key = (case id_p u of None \<Rightarrow> id_key q | Some v \<Rightarrow> v),
      createdAt = (case createdAt_p u of None \<Rightarrow> createdAt q | Some v \<Rightarrow> v)\<rparr>"

definition updateQuestion :: "string \<Rightarrow> PartialQuestion \<Rightarrow> QuestionStore \<Rightarrow> completion \<times> QuestionStore" where
  "updateQuestion i updatedQuestion state =
     (Returns Undefined,
      state\<lparr>questions := map (\<lambda>q. if id_key q = i then spread q updatedQuestion else q) (questions state)\<rparr>)"

definition deleteQuestion :: "string \<Rightarrow> QuestionStore \<Rightarrow> completion \<times> QuestionStore" where
  "deleteQuestion i state =
     (Returns Undefined, state\<lparr>questions := filter (\<lambda>q. id_key q \<noteq> i) (questions state)\<rparr>)"

definition getQuestionsByCategory :: "string \<Rightarrow> QuestionStore \<Rightarrow> Question list" where
  "getQuestionsByCategory c state = filter (\<lambda>q. category q = c) (questions state)"

subsection \<open>The store's subscribers\<close>

text \<open>
  The store that \<^verbatim>\<open>create\<close> of zustand builds holds the state and the listeners that
  subscribed to it (the component subscribes through \<^verbatim>\<open>useQuestionStore()\<close>). Here it
  is the state together with the record of the notifications so far: one entry for each
  round in which every subscribed listener was called once, holding the state the
  listeners were called with.
\<close>

record StoreApi =
  getState :: QuestionStore
  notified :: "QuestionStore list"

text \<open>
  The function \<^verbatim>\<open>set\<close> that zustand passes to the store's definition, called with an
  updater function: it computes \<^verbatim>\<open>nextState = updater(state)\<close> and, unless
  \<^verbatim>\<open>nextState\<close> is the very object \<^verbatim>\<open>state\<close> (\<^verbatim>\<open>Object.is\<close>), replaces the state by
  \<^verbatim>\<open>Object.assign({}, state, nextState)\<close> and calls every listener with the new state.
  Every updater of this store returns a new object literal \<^verbatim>\<open>{ questions: ... }\<close>, which
  is never the object \<^verbatim>\<open>state\<close>, so the listeners are called on every call of \<^verbatim>\<open>set\<close>,
  whether or not the new collection differs from the old one.
\<close>

definition setState :: "(QuestionStore \<Rightarrow> QuestionStore) \<Rightarrow> StoreApi \<Rightarrow> StoreApi" where
  "setState updater api =
     (let nextState = updater (getState api);
          state' = (getState api)\<lparr>questions := questions nextState\<rparr>
      in \<lparr>getState = state', notified = notified api @ [state']\<rparr>)"

text \<open>
  \<^verbatim>\<open>deleteQuestion\<close> with the subscribers in view: the member calls \<^verbatim>\<open>set\<close> with its
  updater, unconditionally, and returns what \<^verbatim>\<open>set\<close> returns, which is \<^verbatim>\<open>undefined\<close>.
\<close>

definition deleteQuestion_notifying :: "string \<Rightarrow> StoreApi \<Rightarrow> completion \<times> StoreApi" where
  "deleteQuestion_notifying i api =
     (Returns Undefined,
      setState (\<lambda>state. \<lparr>questions = filter (\<lambda>q. id_key q \<noteq> i) (questions state)\<rparr>) api)"

subsection \<open>The component's derived values\<close>

text \<open>
  \<^verbatim>\<open>new Set(xs)\<close> adds the elements of \<open>xs\<close> one by one, and a set keeps its elements in
  the order of their first insertion; \<^verbatim>\<open>Array.from\<close> reads them in that order.
\<close>

definition Set_add :: "'a \<Rightarrow> 'a list \<Rightarrow> 'a list" where
  "Set_add x acc = (if x \<in> set acc then acc else acc @ [x])"

definition Array_from_Set :: "'a list \<Rightarrow> 'a list" where
  "Array_from_Set xs = fold Set_add xs []"

definition categories :: "QuestionStore \<Rightarrow> string list" where
  "categories state = Array_from_Set (map category (questions state))"

definition filteredQuestions :: "string \<Rightarrow> QuestionStore \<Rightarrow> Question list" where
  "filteredQuestions selectedCategory state =
     (if selectedCategory = ''all'' then questions state
      else filter (\<lambda>q. category q = selectedCategory) (questions state))"

text \<open>The argument \<^verbatim>\<open>{}\<close> of \<^verbatim>\<open>updateQuestion\<close>: no key present.\<close>

definition emptyPartial :: PartialQuestion where
  "emptyPartial =
     \<lparr>type_p = None, question_p = None, options_p = None, correctAnswer_p = None,
      difficulty_p = None, category_p = None, id_p = None, createdAt_p = None\<rparr>"

subsection \<open>Concrete inputs\<close>

text \<open>
  The form as submitted with question, answer and category filled in and the four option
  inputs left at their default value, the empty string.
\<close>

definition blankOptionsCandidate :: Candidate where
  "blankOptionsCandidate =
     \<lparr>raw_type = Some ''multiple-choice'', raw_question = Some ''2+2?'',
      raw_options = Some ['''', '''', '''', ''''], raw_correctAnswer = Some ''4'',
      raw_difficulty = Some ''medium'', raw_category = Some ''Math''\<rparr>"

text \<open>
  A submission whose question has surrounding blanks, whose category is one blank, and
  whose options hold an empty entry.
\<close>

definition untrimmedCandidate :: Candidate where
  "untrimmedCandidate =
     \<lparr>raw_type = Some ''multiple-choice'', raw_question = Some '' 2+2? '',
      raw_options = Some ['''', ''4''], raw_correctAnswer = Some ''4'',
      raw_difficulty = Some ''easy'', raw_category = Some '' ''\<rparr>"

text \<open>A parsed form, as \<^verbatim>\<open>onSubmit\<close> passes it to \<^verbatim>\<open>addQuestion\<close>.\<close>

definition mathForm :: QuestionForm where
  "mathForm =
     \<lparr>type = multiple_choice, question = ''2+2?'', options = Some [''3'', ''4'', ''5''],
      correctAnswer = ''4'', difficulty = easy, category = ''Math''\<rparr>"

text \<open>
  The store after two calls of \<^verbatim>\<open>addQuestion\<close> on the initial state for which
  \<^verbatim>\<open>Date.now()\<close> gave the same millisecond.
\<close>

definition twiceAdded :: QuestionStore where
  "twiceAdded =
     snd (addQuestion mathForm 1700000000000 1700000000000
       (snd (addQuestion mathForm 1700000000000 1700000000000 (initialState 0 0))))"

text \<open>The store on its initial state, before any notification.\<close>

definition initialApi :: StoreApi where
  "initialApi = \<lparr>getState = initialState 0 0, notified = []\<rparr>"

subsection \<open>The normalisation the specification describes\<close>

text \<open>
  These three definitions follow the specification's words, not the source: trimming a
  string of its leading and trailing white space (the ASCII white space characters), and
  the entries of \<^verbatim>\<open>options\<close> that are not the empty string. They serve only to
  compare the schema with that description.
\<close>

definition spec_is_space :: "char \<Rightarrow> bool" where
  "spec_is_space ch = (ch \<in> set [CHR '' '', CHR 0x09, CHR 0x0A, CHR 0x0B, CHR 0x0C, CHR 0x0D])"

definition spec_trim :: "string \<Rightarrow> string" where
  "spec_trim s = rev (dropWhile spec_is_space (rev (dropWhile spec_is_space s)))"

definition spec_non_empty_entries :: "string list option \<Rightarrow> string list" where
  "spec_non_empty_entries os = (case os of None \<Rightarrow> [] | Some xs \<Rightarrow> filter (\<lambda>x. x \<noteq> []) xs)"

section \<open>Auxiliary facts\<close>

subsection \<open>Decimal digits\<close>

lemma digit_char_inj: "a < 10 \<Longrightarrow> b < 10 \<Longrightarrow> digit_char a = digit_char b \<Longrightarrow> a = b"
proof -
  assume a: "a < 10" and b: "b < 10" and e: "digit_char a = digit_char b"
  have d: "distinct ''0123456789''" by simp
  have l: "length ''0123456789'' = 10" by simp
  from nth_eq_iff_index_eq [OF d, of a b] a b e l show "a = b"
    unfolding digit_char_def by metis
qed

lemma toString_digit: "n < 10 \<Longrightarrow> toString n = [digit_char n]"
  by (subst toString.simps) simp

lemma toString_digits: "10 \<le> n \<Longrightarrow> toString n = toString (n div 10) @ [digit_char (n mod 10)]"
  by (subst toString.simps) simp

lemma toString_not_Nil: "toString n \<noteq> []"
  by (subst toString.simps) simp

lemma toString_snoc:
  "\<exists>ds. toString n = ds @ [digit_char (n mod 10)] \<and> (ds = []) = (n < 10) \<and>
     (10 \<le> n \<longrightarrow> ds = toString (n div 10))"
  by (subst toString.simps) (simp add: toString_not_Nil)

text \<open>Two clock readings with the same digits are the same reading.\<close>

lemma toString_inj: "toString m = toString n \<Longrightarrow> m = n"
proof (induction m arbitrary: n rule: toString.induct)
  case (1 m)
  obtain ds where ds: "toString m = ds @ [digit_char (m mod 10)]" "(ds = []) = (m < 10)"
      "10 \<le> m \<longrightarrow> ds = toString (m div 10)"
    using toString_snoc [of m] by blast
  obtain es where es: "toString n = es @ [digit_char (n mod 10)]" "(es = []) = (n < 10)"
      "10 \<le> n \<longrightarrow> es = toString (n div 10)"
    using toString_snoc [of n] by blast
  from ds(1) es(1) "1.prems" have eq: "ds = es"
    and dg: "digit_char (m mod 10) = digit_char (n mod 10)"
    by auto
  have md: "m mod 10 = n mod 10"
    by (rule digit_char_inj [OF _ _ dg]) auto
  show ?case
  proof (cases "m < 10")
    case True
    with ds(2) eq es(2) have "n < 10" by simp
    with True md show ?thesis by simp
  next
    case False
    with ds(2) eq es(2) have n10: "\<not> n < 10" by simp
    from False ds(3) have "ds = toString (m div 10)" by simp
    moreover from n10 es(3) have "es = toString (n div 10)" by simp
    ultimately have "toString (m div 10) = toString (n div 10)" using eq by simp
    from "1.IH" [OF False this] have "m div 10 = n div 10" .
    with md show ?thesis by (metis div_mult_mod_eq)
  qed
qed

lemma toString_1: "toString (Suc 0) = ''1''"
  by (subst toString.simps) (simp add: digit_char_def)

lemma toString_2: "toString 2 = ''2''"
  by (subst toString.simps) (simp add: digit_char_def)

lemma toString_sample: "toString 1700000000000 = ''1700000000000''"
  by (simp add: toString_digit toString_digits digit_char_def)

subsection \<open>Lists\<close>

lemma map_if_absent: "i \<notin> f ` set xs \<Longrightarrow> map (\<lambda>q. if f q = i then g q else q) xs = xs"
  by (induction xs) auto

lemma length_filter_less_iff: "(length (filter P xs) < length xs) = (\<exists>x \<in> set xs. \<not> P x)"
proof (induction xs)
  case Nil
  show ?case by simp
next
  case (Cons x xs)
  have "length (filter P xs) \<le> length xs" by (rule length_filter_le)
  with Cons show ?case by auto
qed

lemma filter_absent_id:
  "i \<notin> id_key ` set xs \<Longrightarrow> filter (\<lambda>q. id_key q \<noteq> i) xs = xs"
  by (auto simp: filter_id_conv)

lemma length_filter_id_less:
  "(length (filter (\<lambda>q. id_key q \<noteq> i) xs) < length xs) = (i \<in> id_key ` set xs)"
  by (auto simp: length_filter_less_iff)

lemma set_fold_Set_add: "set (fold Set_add xs acc) = set acc \<union> set xs"
  by (induction xs arbitrary: acc) (auto simp: Set_add_def)

lemma distinct_fold_Set_add: "distinct acc \<Longrightarrow> distinct (fold Set_add xs acc)"
  by (induction xs arbitrary: acc) (auto simp: Set_add_def)

lemma spread_emptyPartial: "spread q emptyPartial = q"
  by (simp add: spread_def emptyPartial_def)

subsection \<open>The schema, key by key\<close>

lemma path_type_enum: "x \<in> set (issues_of (type_enum k v)) \<Longrightarrow> path x = k"
  by (auto simp: issues_of_def type_enum_def split: option.splits if_splits)

lemma path_difficulty_enum: "x \<in> set (issues_of (difficulty_enum k v)) \<Longrightarrow> path x = k"
  by (auto simp: issues_of_def difficulty_enum_def split: option.splits if_splits)

lemma path_string_min1: "x \<in> set (issues_of (string_min1 k m v)) \<Longrightarrow> path x = k"
  by (auto simp: issues_of_def string_min1_def split: option.splits if_splits)

lemma issues_of_string_array_optional: "issues_of (string_array_optional v) = []"
  by (simp add: issues_of_def string_array_optional_def)

lemma string_min1_Inr: "string_min1 k m v = Inr s \<longleftrightarrow> v = Some s \<and> s \<noteq> []"
  by (cases v) (auto simp: string_min1_def)

text \<open>When every key parses, the result is the object of the parsed values.\<close>

lemma questionSchema_Inr:
  assumes "type_enum ''type'' (raw_type c) = Inr t"
    and "string_min1 ''question'' ''Question is required'' (raw_question c) = Inr q"
    and "string_min1 ''correctAnswer'' ''Correct answer is required'' (raw_correctAnswer c) = Inr a"
    and "difficulty_enum ''difficulty'' (raw_difficulty c) = Inr d"
    and "string_min1 ''category'' ''Category is required'' (raw_category c) = Inr g"
  shows "questionSchema c =
    Inr \<lparr>type = t, question = q, options = raw_options c, correctAnswer = a,
         difficulty = d, category = g\<rparr>"
  using assms by (simp add: questionSchema_def string_array_optional_def)

text \<open>A failure carries the issues of all keys, in the order of the shape.\<close>

lemma questionSchema_Inl:
  assumes "questionSchema c = Inl e"
  shows "e = issues_of (type_enum ''type'' (raw_type c)) @
      issues_of (string_min1 ''question'' ''Question is required'' (raw_question c)) @
      issues_of (string_array_optional (raw_options c)) @
      issues_of (string_min1 ''correctAnswer'' ''Correct answer is required'' (raw_correctAnswer c)) @
      issues_of (difficulty_enum ''difficulty'' (raw_difficulty c)) @
      issues_of (string_min1 ''category'' ''Category is required'' (raw_category c))"
  using assms unfolding questionSchema_def Let_def
  by (simp split: sum.splits)

text \<open>One key that does not parse makes the whole parse fail.\<close>

lemma questionSchema_Inl_type:
  "type_enum ''type'' (raw_type c) = Inl e \<Longrightarrow> \<exists>es. questionSchema c = Inl es"
  by (simp add: questionSchema_def Let_def)

lemma questionSchema_Inl_question:
  "string_min1 ''question'' ''Question is required'' (raw_question c) = Inl e
   \<Longrightarrow> \<exists>es. questionSchema c = Inl es"
  by (simp add: questionSchema_def Let_def split: sum.splits)

lemma questionSchema_Inl_correctAnswer:
  "string_min1 ''correctAnswer'' ''Correct answer is required'' (raw_correctAnswer c) = Inl e
   \<Longrightarrow> \<exists>es. questionSchema c = Inl es"
  by (simp add: questionSchema_def Let_def split: sum.splits)

lemma questionSchema_Inl_difficulty:
  "difficulty_enum ''difficulty'' (raw_difficulty c) = Inl e \<Longrightarrow> \<exists>es. questionSchema c = Inl es"
  by (simp add: questionSchema_def Let_def split: sum.splits)

lemma questionSchema_Inl_category:
  "string_min1 ''category'' ''Category is required'' (raw_category c) = Inl e
   \<Longrightarrow> \<exists>es. questionSchema c = Inl es"
  by (simp add: questionSchema_def Let_def split: sum.splits)

lemma questionSchema_InrD:
  assumes "questionSchema c = Inr r"
  shows "type_enum ''type'' (raw_type c) = Inr (type r) \<and>
     string_min1 ''question'' ''Question is required'' (raw_question c) = Inr (question r) \<and>
     raw_options c = options r \<and>
     string_min1 ''correctAnswer'' ''Correct answer is required'' (raw_correctAnswer c)
       = Inr (correctAnswer r) \<and>
     difficulty_enum ''difficulty'' (raw_difficulty c) = Inr (difficulty r) \<and>
     string_min1 ''category'' ''Category is required'' (raw_category c) = Inr (category r)"
proof -
  obtain t where t: "type_enum ''type'' (raw_type c) = Inr t"
    using assms questionSchema_Inl_type [of c]
    by (cases "type_enum ''type'' (raw_type c)") auto
  obtain q where q: "string_min1 ''question'' ''Question is required'' (raw_question c) = Inr q"
    using assms questionSchema_Inl_question [of c]
    by (cases "string_min1 ''question'' ''Question is required'' (raw_question c)") auto
  obtain a where a:
    "string_min1 ''correctAnswer'' ''Correct answer is required'' (raw_correctAnswer c) = Inr a"
    using assms questionSchema_Inl_correctAnswer [of c]
    by (cases "string_min1 ''correctAnswer'' ''Correct answer is required'' (raw_correctAnswer c)")
      auto
  obtain d where d: "difficulty_enum ''difficulty'' (raw_difficulty c) = Inr d"
    using assms questionSchema_Inl_difficulty [of c]
    by (cases "difficulty_enum ''difficulty'' (raw_difficulty c)") auto
  obtain g where g: "string_min1 ''category'' ''Category is required'' (raw_category c) = Inr g"
    using assms questionSchema_Inl_category [of c]
    by (cases "string_min1 ''category'' ''Category is required'' (raw_category c)") auto
  from questionSchema_Inr [OF t q a d g] assms
  have r: "r = \<lparr>type = t, question = q, options = raw_options c, correctAnswer = a,
                  difficulty = d, category = g\<rparr>"
    by simp
  show ?thesis
    unfolding t q a d g r by simp
qed

text \<open>Every issue of the schema is reported on one of the five checked keys.\<close>

lemma questionSchema_issue_paths:
  assumes "x \<in> set (issues_of (questionSchema c))"
  shows "path x = ''type'' \<or> path x = ''question'' \<or> path x = ''correctAnswer'' \<or>
         path x = ''difficulty'' \<or> path x = ''category''"
proof (cases "questionSchema c")
  case (Inr r)
  with assms show ?thesis by (simp add: issues_of_def)
next
  case (Inl e)
  with assms have "x \<in> set e" by (simp add: issues_of_def)
  then have "x \<in> set (issues_of (type_enum ''type'' (raw_type c))) \<or>
      x \<in> set (issues_of (string_min1 ''question'' ''Question is required'' (raw_question c))) \<or>
      x \<in> set (issues_of (string_min1 ''correctAnswer'' ''Correct answer is required''
            (raw_correctAnswer c))) \<or>
      x \<in> set (issues_of (difficulty_enum ''difficulty'' (raw_difficulty c))) \<or>
      x \<in> set (issues_of (string_min1 ''category'' ''Category is required'' (raw_category c)))"
    unfolding questionSchema_Inl [OF Inl] issues_of_string_array_optional set_append
    by simp
  then show ?thesis
    using path_type_enum path_string_min1 path_difficulty_enum by metis
qed

section \<open>The update operation\<close>

text \<open>
  Claim C1 says that \<^verbatim>\<open>updateQuestion\<close> with an id that no record carries fails with a
  \<^verbatim>\<open>NotFoundError\<close>. The store has no error results: on the initial state, with the
  absent id \<^verbatim>\<open>"3"\<close>, the call does not throw.
\<close>

theorem updateQuestion_absent_id_no_error:
  "''3'' \<notin> id_key ` set (questions (initialState 0 0)) \<and>
   fst (updateQuestion ''3'' (emptyPartial\<lparr>difficulty_p := Some hard\<rparr>) (initialState 0 0))
     \<noteq> Throws NotFoundError"
  by (simp add: initialState_def updateQuestion_def)

text \<open>
  Claim C1, as the code has it: for every store state and every id not present in the
  collection, \<^verbatim>\<open>updateQuestion\<close> returns normally, with no value, and leaves the
  collection unchanged.
\<close>

theorem updateQuestion_absent_id:
  "i \<notin> id_key ` set (questions state) \<Longrightarrow>
   updateQuestion i updatedQuestion state = (Returns Undefined, state)"
  by (simp add: updateQuestion_def map_if_absent)

theorem updateQuestion_absent_id_witness:
  "''3'' \<notin> id_key ` set (questions (initialState 0 0)) \<and>
   updateQuestion ''3'' (emptyPartial\<lparr>difficulty_p := Some hard\<rparr>) (initialState 0 0)
     = (Returns Undefined, initialState 0 0)"
proof -
  have h: "''3'' \<notin> id_key ` set (questions (initialState 0 0))"
    by (simp add: initialState_def)
  from updateQuestion_absent_id [OF h] h show ?thesis by simp
qed

text \<open>
  Claim C2 says that \<^verbatim>\<open>id\<close> and \<^verbatim>\<open>createdAt\<close> of the updated record stay as they
  were even when the argument names them. The spread copies every key of the argument:
  updating the record \<^verbatim>\<open>"1"\<close> of the initial state with \<^verbatim>\<open>{id: "9", createdAt: 5}\<close>
  changes both.
\<close>

theorem updateQuestion_overwrites_id:
  "''1'' \<in> id_key ` set (questions (initialState 0 0)) \<and>
   map id_key (questions (snd (updateQuestion ''1''
       (emptyPartial\<lparr>id_p := Some ''9'', createdAt_p := Some 5\<rparr>) (initialState 0 0))))
     = [''9'', ''2''] \<and>
   map createdAt (questions (snd (updateQuestion ''1''
       (emptyPartial\<lparr>id_p := Some ''9'', createdAt_p := Some 5\<rparr>) (initialState 0 0))))
     = [5, 0]"
  by (simp add: initialState_def updateQuestion_def spread_def emptyPartial_def)

text \<open>
  Claim C2, as the code has it: \<^verbatim>\<open>updateQuestion\<close> keeps the length of the collection
  and the position of every record; a record with another id is unchanged; in a record
  with the given id every field named in the argument, \<^verbatim>\<open>id\<close> and \<^verbatim>\<open>createdAt\<close>
  included, takes the argument's value, and every field not named keeps its value.
\<close>

theorem updateQuestion_merge:
  assumes "n < length (questions state)"
  shows "length (questions (snd (updateQuestion i u state))) = length (questions state) \<and>
    (id_key (questions state ! n) \<noteq> i \<longrightarrow>
       questions (snd (updateQuestion i u state)) ! n = questions state ! n) \<and>
    (id_key (questions state ! n) = i \<longrightarrow>
       type (questions (snd (updateQuestion i u state)) ! n)
         = (case type_p u of None \<Rightarrow> type (questions state ! n) | Some v \<Rightarrow> v) \<and>
       question (questions (snd (updateQuestion i u state)) ! n)
         = (case question_p u of None \<Rightarrow> question (questions state ! n) | Some v \<Rightarrow> v) \<and>
       options (questions (snd (updateQuestion i u state)) ! n)
         = (case options_p u of None \<Rightarrow> options (questions state ! n) | Some v \<Rightarrow> v) \<and>
       correctAnswer (questions (snd (updateQuestion i u state)) ! n)
         = (case correctAnswer_p u of None \<Rightarrow> correctAnswer (questions state ! n) | Some v \<Rightarrow> v) \<and>
       difficulty (questions (snd (updateQuestion i u state)) ! n)
         = (case difficulty_p u of None \<Rightarrow> difficulty (questions state ! n) | Some v \<Rightarrow> v) \<and>
       category (questions (snd (updateQuestion i u state)) ! n)
         = (case category_p u of None \<Rightarrow> category (questions state ! n) | Some v \<Rightarrow> v) \<and>
       id_key (questions (snd (updateQuestion i u state)) ! n)
         = (case id_p u of None \<Rightarrow> id_key (questions state ! n) | Some v \<Rightarrow> v) \<and>
       createdAt (questions (snd (updateQuestion i u state)) ! n)
         = (case createdAt_p u of None \<Rightarrow> createdAt (questions state ! n) | Some v \<Rightarrow> v))"
  using assms by (simp add: updateQuestion_def spread_def)

theorem updateQuestion_merge_witness:
  "(0::nat) < length (questions (initialState 7 8)) \<and>
   questions (snd (updateQuestion ''1'' (emptyPartial\<lparr>difficulty_p := Some hard\<rparr>)
       (initialState 7 8))) ! 0
     = (questions (initialState 7 8) ! 0)\<lparr>difficulty := hard\<rparr> \<and>
   id_key (questions (snd (updateQuestion ''1'' (emptyPartial\<lparr>difficulty_p := Some hard\<rparr>)
       (initialState 7 8))) ! 0) = ''1'' \<and>
   createdAt (questions (snd (updateQuestion ''1'' (emptyPartial\<lparr>difficulty_p := Some hard\<rparr>)
       (initialState 7 8))) ! 0) = 7"
proof -
  have h: "(0::nat) < length (questions (initialState 7 8))"
    by (simp add: initialState_def)
  have i: "id_key (questions (initialState 7 8) ! 0) = ''1''"
    by (simp add: initialState_def)
  from updateQuestion_merge [OF h, of "''1''" "emptyPartial\<lparr>difficulty_p := Some hard\<rparr>"] h i
  show ?thesis
    by (simp add: emptyPartial_def initialState_def)
qed

text \<open>
  Claim C10: for every store state and every id, \<^verbatim>\<open>updateQuestion\<close> with the empty
  object \<^verbatim>\<open>{}\<close> leaves the collection as it is: the same records, in the same number
  and order.
\<close>

theorem updateQuestion_emptyPartial:
  "updateQuestion i emptyPartial state = (Returns Undefined, state)"
proof -
  have "map (\<lambda>q. if id_key q = i then spread q emptyPartial else q) (questions state)
      = questions state"
    by (rule map_idI) (simp add: spread_emptyPartial)
  then show ?thesis by (simp add: updateQuestion_def)
qed

theorem updateQuestion_emptyPartial_witness:
  "questions (snd (updateQuestion ''1'' emptyPartial (initialState 7 8)))
     = questions (initialState 7 8)"
  using updateQuestion_emptyPartial [of "''1''" "initialState 7 8"] by simp

section \<open>The delete operation\<close>

text \<open>
  Claim C3 says that \<^verbatim>\<open>deleteQuestion\<close> returns \<^verbatim>\<open>true\<close> when it removed a record and
  \<^verbatim>\<open>false\<close> when the id is absent, and that with an absent id it does not notify the
  subscribers. It returns no value in either case, and it calls \<^verbatim>\<open>set\<close> in either case:
  on the initial state, deleting \<^verbatim>\<open>"1"\<close> removes a record and does not return \<^verbatim>\<open>true\<close>;
  deleting the absent \<^verbatim>\<open>"3"\<close> does not return \<^verbatim>\<open>false\<close> and notifies the subscribers
  once, with the unchanged state.
\<close>

theorem deleteQuestion_notifies_absent_id:
  "length (questions (getState (snd (deleteQuestion_notifying ''1'' initialApi))))
     < length (questions (getState initialApi)) \<and>
   fst (deleteQuestion_notifying ''1'' initialApi) \<noteq> Returns (Boolean True) \<and>
   ''3'' \<notin> id_key ` set (questions (getState initialApi)) \<and>
   fst (deleteQuestion_notifying ''3'' initialApi) \<noteq> Returns (Boolean False) \<and>
   notified initialApi = [] \<and>
   notified (snd (deleteQuestion_notifying ''3'' initialApi)) = [initialState 0 0]"
  by (simp add: initialApi_def deleteQuestion_notifying_def setState_def Let_def initialState_def)

text \<open>
  Claim C3, as the code has it: for every store state and every id, \<^verbatim>\<open>deleteQuestion\<close>
  returns no value; the collection gets shorter exactly when a record carries the id;
  when the id is absent the collection, and so its length, is unchanged; and on every
  call, with the id present or absent, the subscribers are notified once, with the state
  after the call. The state after the call is the one \<open>deleteQuestion\<close> computes.
\<close>

theorem deleteQuestion_notifying_void:
  "fst (deleteQuestion_notifying i api) = Returns Undefined \<and>
   getState (snd (deleteQuestion_notifying i api)) = snd (deleteQuestion i (getState api)) \<and>
   (length (questions (getState (snd (deleteQuestion_notifying i api))))
      < length (questions (getState api)))
     = (i \<in> id_key ` set (questions (getState api))) \<and>
   (i \<notin> id_key ` set (questions (getState api)) \<longrightarrow>
      getState (snd (deleteQuestion_notifying i api)) = getState api) \<and>
   notified (snd (deleteQuestion_notifying i api))
     = notified api @ [getState (snd (deleteQuestion_notifying i api))]"
  by (simp add: deleteQuestion_notifying_def setState_def deleteQuestion_def Let_def
      length_filter_id_less filter_absent_id)

theorem deleteQuestion_notifying_void_witness:
  "''3'' \<notin> id_key ` set (questions (getState initialApi)) \<and>
   deleteQuestion_notifying ''3'' initialApi
     = (Returns Undefined, \<lparr>getState = initialState 0 0, notified = [initialState 0 0]\<rparr>) \<and>
   length (questions (getState (snd (deleteQuestion_notifying ''3'' initialApi)))) = 2"
proof -
  have h: "''3'' \<notin> id_key ` set (questions (getState initialApi))"
    by (simp add: initialApi_def initialState_def)
  have g: "getState initialApi = initialState 0 0" and n: "notified initialApi = []"
    by (simp_all add: initialApi_def)
  note t = deleteQuestion_notifying_void [of "''3''" initialApi]
  from t have "''3'' \<notin> id_key ` set (questions (getState initialApi)) \<longrightarrow>
      getState (snd (deleteQuestion_notifying ''3'' initialApi)) = getState initialApi"
    by (elim conjE) assumption
  from this h
  have "getState (snd (deleteQuestion_notifying ''3'' initialApi)) = getState initialApi"
    by (rule mp)
  with g have c: "getState (snd (deleteQuestion_notifying ''3'' initialApi)) = initialState 0 0"
    by simp
  from t have "notified (snd (deleteQuestion_notifying ''3'' initialApi))
     = notified initialApi @ [getState (snd (deleteQuestion_notifying ''3'' initialApi))]"
    by (elim conjE) assumption
  with c n
  have m: "notified (snd (deleteQuestion_notifying ''3'' initialApi)) = [initialState 0 0]"
    by simp
  from t have r: "fst (deleteQuestion_notifying ''3'' initialApi) = Returns Undefined"
    by (elim conjE) assumption
  have l: "length (questions (initialState 0 0)) = 2"
    by (simp add: initialState_def)
  have e: "deleteQuestion_notifying ''3'' initialApi
     = (Returns Undefined, \<lparr>getState = initialState 0 0, notified = [initialState 0 0]\<rparr>)"
    using r c m by (cases "deleteQuestion_notifying ''3'' initialApi") simp
  from h e c l show ?thesis by simp
qed

text \<open>
  Claim C9: for every store state and every id, after \<^verbatim>\<open>deleteQuestion\<close> no record with
  that id remains, however many carried it, and the remaining records are those with
  another id, each as often as before and in their former order.
\<close>

theorem deleteQuestion_removes_all:
  "i \<notin> id_key ` set (questions (snd (deleteQuestion i state))) \<and>
   subseq (questions (snd (deleteQuestion i state))) (questions state) \<and>
   mset (questions (snd (deleteQuestion i state)))
     = filter_mset (\<lambda>q. id_key q \<noteq> i) (mset (questions state))"
proof -
  have "\<forall>q \<in> set (filter (\<lambda>q. id_key q \<noteq> i) (questions state)). id_key q \<noteq> i"
    by simp
  then have "i \<notin> id_key ` set (filter (\<lambda>q. id_key q \<noteq> i) (questions state))"
    by blast
  then show ?thesis
    by (simp add: deleteQuestion_def)
qed

theorem deleteQuestion_removes_all_witness:
  "map id_key (questions twiceAdded) = [''1'', ''2'', ''1700000000000'', ''1700000000000''] \<and>
   map id_key (questions (snd (deleteQuestion ''1700000000000'' twiceAdded))) = [''1'', ''2''] \<and>
   ''1700000000000'' \<notin> id_key ` set (questions (snd (deleteQuestion ''1700000000000'' twiceAdded)))"
  using deleteQuestion_removes_all [of "''1700000000000''" twiceAdded]
  by (simp add: twiceAdded_def deleteQuestion_def addQuestion_def newQuestion_def
      initialState_def toString_sample)

section \<open>The schema\<close>

text \<open>
  Claim C4 says that a multiple-choice candidate with fewer than two non-empty options is
  rejected with a violation on \<^verbatim>\<open>options\<close>. The schema has no rule on the entries of
  \<^verbatim>\<open>options\<close>: the form submitted with its four option inputs left empty is accepted.
\<close>

theorem questionSchema_accepts_blank_options:
  "raw_type blankOptionsCandidate = Some ''multiple-choice'' \<and>
   length (spec_non_empty_entries (raw_options blankOptionsCandidate)) < 2 \<and>
   questionSchema blankOptionsCandidate =
     Inr \<lparr>type = multiple_choice, question = ''2+2?'', options = Some ['''', '''', '''', ''''],
          correctAnswer = ''4'', difficulty = medium, category = ''Math''\<rparr>"
  by (simp add: blankOptionsCandidate_def spec_non_empty_entries_def questionSchema_def
      type_enum_def string_min1_def string_array_optional_def difficulty_enum_def)

text \<open>
  Claim C4, as the code has it: for every candidate, the schema reports no violation on
  \<^verbatim>\<open>options\<close>, whatever its entries; a multiple-choice candidate whose question, correct
  answer and category are non-empty and whose difficulty is one of the three levels is
  accepted whatever its options are, and the accepted record holds them as given.
\<close>

theorem questionSchema_options_unchecked:
  "''options'' \<notin> path ` set (issues_of (questionSchema c)) \<and>
   (raw_type c = Some ''multiple-choice'' \<and>
    raw_question c = Some q \<and> q \<noteq> [] \<and>
    raw_correctAnswer c = Some a \<and> a \<noteq> [] \<and>
    difficulty_enum ''difficulty'' (raw_difficulty c) = Inr d \<and>
    raw_category c = Some g \<and> g \<noteq> [] \<longrightarrow>
    questionSchema c =
      Inr \<lparr>type = multiple_choice, question = q, options = raw_options c, correctAnswer = a,
           difficulty = d, category = g\<rparr>)"
proof -
  have "''options'' \<notin> path ` set (issues_of (questionSchema c))"
  proof
    assume "''options'' \<in> path ` set (issues_of (questionSchema c))"
    then obtain x where "x \<in> set (issues_of (questionSchema c))" and "path x = ''options''"
      by auto
    with questionSchema_issue_paths [of x c] show False by simp
  qed
  moreover have "questionSchema c =
      Inr \<lparr>type = multiple_choice, question = q, options = raw_options c, correctAnswer = a,
           difficulty = d, category = g\<rparr>"
    if "raw_type c = Some ''multiple-choice''" "raw_question c = Some q" "q \<noteq> []"
      "raw_correctAnswer c = Some a" "a \<noteq> []"
      "difficulty_enum ''difficulty'' (raw_difficulty c) = Inr d"
      "raw_category c = Some g" "g \<noteq> []"
  proof (rule questionSchema_Inr)
    show "type_enum ''type'' (raw_type c) = Inr multiple_choice"
      using that by (simp add: type_enum_def)
    show "string_min1 ''question'' ''Question is required'' (raw_question c) = Inr q"
      using that by (simp add: string_min1_Inr)
    show "string_min1 ''correctAnswer'' ''Correct answer is required'' (raw_correctAnswer c) = Inr a"
      using that by (simp add: string_min1_Inr)
    show "difficulty_enum ''difficulty'' (raw_difficulty c) = Inr d"
      using that by simp
    show "string_min1 ''category'' ''Category is required'' (raw_category c) = Inr g"
      using that by (simp add: string_min1_Inr)
  qed
  ultimately show ?thesis by blast
qed

theorem questionSchema_options_unchecked_witness:
  "''options'' \<notin> path ` set (issues_of (questionSchema
      (blankOptionsCandidate\<lparr>raw_options := Some [''only one'']\<rparr>))) \<and>
   questionSchema (blankOptionsCandidate\<lparr>raw_options := Some [''only one'']\<rparr>) =
     Inr \<lparr>type = multiple_choice, question = ''2+2?'', options = Some [''only one''],
          correctAnswer = ''4'', difficulty = medium, category = ''Math''\<rparr>"
proof -
  let ?c = "blankOptionsCandidate\<lparr>raw_options := Some [''only one'']\<rparr>"
  note t = questionSchema_options_unchecked [of ?c "''2+2?''" "''4''" medium "''Math''"]
  have h: "raw_type ?c = Some ''multiple-choice'' \<and>
    raw_question ?c = Some ''2+2?'' \<and> ''2+2?'' \<noteq> [] \<and>
    raw_correctAnswer ?c = Some ''4'' \<and> ''4'' \<noteq> [] \<and>
    difficulty_enum ''difficulty'' (raw_difficulty ?c) = Inr medium \<and>
    raw_category ?c = Some ''Math'' \<and> ''Math'' \<noteq> []"
    by (simp add: blankOptionsCandidate_def difficulty_enum_def)
  have o: "raw_options ?c = Some [''only one'']"
    by simp
  have 1: "''options'' \<notin> path ` set (issues_of (questionSchema ?c))"
    by (rule t [THEN conjunct1])
  have 2: "questionSchema ?c =
     Inr \<lparr>type = multiple_choice, question = ''2+2?'', options = raw_options ?c,
          correctAnswer = ''4'', difficulty = medium, category = ''Math''\<rparr>"
    by (rule t [THEN conjunct2, THEN mp]) (rule h)
  from 1 2 show ?thesis
    unfolding o by (rule conjI)
qed

text \<open>
  Claim C5 says that the schema trims every string and drops empty options, so that an
  accepted record has a question, answer and category that are non-empty after trimming.
  The schema does neither: it accepts a candidate whose question has surrounding blanks,
  whose category is a single blank and whose options hold an empty entry, and returns
  all three as they came.
\<close>

theorem questionSchema_keeps_whitespace:
  "questionSchema untrimmedCandidate =
     Inr \<lparr>type = multiple_choice, question = '' 2+2? '', options = Some ['''', ''4''],
          correctAnswer = ''4'', difficulty = easy, category = '' ''\<rparr> \<and>
   spec_trim '' 2+2? '' \<noteq> '' 2+2? '' \<and>
   spec_trim '' '' = [] \<and>
   spec_non_empty_entries (Some ['''', ''4'']) \<noteq> ['''', ''4'']"
  by (simp add: untrimmedCandidate_def spec_non_empty_entries_def questionSchema_def
      type_enum_def string_min1_def string_array_optional_def difficulty_enum_def
      spec_trim_def spec_is_space_def)

text \<open>
  Claim C5, as the code has it: the schema does not normalise. For every candidate it
  accepts, the accepted record holds the candidate's question, options, correct answer
  and category exactly as given (nothing trimmed, no option dropped) and its type and
  difficulty decoded; question, correct answer and category of an accepted record are
  non-empty strings, which may consist of white space only.
\<close>

theorem questionSchema_returns_input:
  assumes "questionSchema c = Inr r"
  shows "type_enum ''type'' (raw_type c) = Inr (type r) \<and>
     raw_question c = Some (question r) \<and>
     raw_options c = options r \<and>
     raw_correctAnswer c = Some (correctAnswer r) \<and>
     difficulty_enum ''difficulty'' (raw_difficulty c) = Inr (difficulty r) \<and>
     raw_category c = Some (category r) \<and>
     question r \<noteq> [] \<and> correctAnswer r \<noteq> [] \<and> category r \<noteq> []"
  using questionSchema_InrD [OF assms] by (simp add: string_min1_Inr)

theorem questionSchema_returns_input_witness:
  "questionSchema untrimmedCandidate =
     Inr \<lparr>type = multiple_choice, question = '' 2+2? '', options = Some ['''', ''4''],
          correctAnswer = ''4'', difficulty = easy, category = '' ''\<rparr> \<and>
   raw_question untrimmedCandidate = Some '' 2+2? '' \<and>
   raw_options untrimmedCandidate = Some ['''', ''4''] \<and>
   raw_category untrimmedCandidate = Some '' ''"
proof -
  have h: "questionSchema untrimmedCandidate =
     Inr \<lparr>type = multiple_choice, question = '' 2+2? '', options = Some ['''', ''4''],
          correctAnswer = ''4'', difficulty = easy, category = '' ''\<rparr>"
    by (simp add: untrimmedCandidate_def questionSchema_def
      type_enum_def string_min1_def string_array_optional_def difficulty_enum_def)
  from questionSchema_returns_input [OF h] h show ?thesis by simp
qed

section \<open>Views by category\<close>

text \<open>
  Claim C6 says that listing by category with the argument \<^verbatim>\<open>"all"\<close> gives the whole
  collection. The store's \<^verbatim>\<open>getQuestionsByCategory\<close> has no wildcard: on the initial
  state, whose categories are Geography and Science, \<^verbatim>\<open>"all"\<close> matches no record.
\<close>

theorem getQuestionsByCategory_no_wildcard:
  "getQuestionsByCategory ''all'' (initialState 0 0) = [] \<and>
   getQuestionsByCategory ''all'' (initialState 0 0) \<noteq> questions (initialState 0 0)"
  by (simp add: getQuestionsByCategory_def initialState_def)

text \<open>
  Claim C6, as the code has it: the component's \<^verbatim>\<open>filteredQuestions\<close> is the whole
  collection for \<^verbatim>\<open>"all"\<close> and, for every other argument, exactly the records whose
  category equals the argument, in their order of insertion; the store's
  \<^verbatim>\<open>getQuestionsByCategory\<close> is, for every argument, \<^verbatim>\<open>"all"\<close> included, exactly the
  records whose category equals the argument, in their order of insertion.
\<close>

theorem filteredQuestions_by_category:
  "filteredQuestions ''all'' state = questions state \<and>
   (c \<noteq> ''all'' \<longrightarrow>
      filteredQuestions c state = filter (\<lambda>q. category q = c) (questions state)) \<and>
   subseq (filteredQuestions c state) (questions state) \<and>
   getQuestionsByCategory c state = filter (\<lambda>q. category q = c) (questions state) \<and>
   subseq (getQuestionsByCategory c state) (questions state)"
  by (simp add: filteredQuestions_def getQuestionsByCategory_def)

theorem filteredQuestions_by_category_witness:
  "''Geography'' \<noteq> ''all'' \<and>
   map id_key (filteredQuestions ''Geography'' (initialState 0 0)) = [''1''] \<and>
   filteredQuestions ''geography'' (initialState 0 0) = [] \<and>
   map id_key (filteredQuestions ''all'' (initialState 0 0)) = [''1'', ''2''] \<and>
   map id_key (getQuestionsByCategory ''Science'' (initialState 0 0)) = [''2'']"
  using filteredQuestions_by_category [of "initialState 0 0" "''Geography''"]
    filteredQuestions_by_category [of "initialState 0 0" "''geography''"]
    filteredQuestions_by_category [of "initialState 0 0" "''Science''"]
  by (simp add: initialState_def)

text \<open>
  Claim C8: for every store state, \<^verbatim>\<open>categories\<close> is computed from the collection of
  that state alone, holds exactly the category strings of its records, each once, and is
  empty when the collection is empty.
\<close>

theorem categories_distinct:
  "set (categories state) = category ` set (questions state) \<and>
   distinct (categories state) \<and>
   categories (state\<lparr>questions := []\<rparr>) = []"
  by (simp add: categories_def Array_from_Set_def set_fold_Set_add distinct_fold_Set_add)

theorem categories_distinct_witness:
  "categories (initialState 0 0) = [''Geography'', ''Science''] \<and>
   categories (snd (addQuestion mathForm 5 5 (initialState 0 0\<lparr>questions := []\<rparr>))) = [''Math''] \<and>
   categories (snd (deleteQuestion (toString 5)
      (snd (addQuestion mathForm 5 5 (initialState 0 0\<lparr>questions := []\<rparr>))))) = []"
  using categories_distinct [of "snd (addQuestion mathForm 5 5 (initialState 0 0\<lparr>questions := []\<rparr>))"]
  by (simp add: addQuestion_def newQuestion_def deleteQuestion_def mathForm_def initialState_def
      categories_def Array_from_Set_def Set_add_def)

section \<open>The create operation\<close>

text \<open>
  Claim C7 says that the id of a new record differs from the id of every record already
  in the collection. The id is the clock's reading in milliseconds: when a second call
  of \<^verbatim>\<open>addQuestion\<close> reads the same millisecond as the first, the new record gets the id
  the first one has.
\<close>

theorem addQuestion_same_millisecond:
  "id_key (last (questions (snd (addQuestion mathForm 1700000000000 1700000000000
       (snd (addQuestion mathForm 1700000000000 1700000000000 (initialState 0 0)))))))
   \<in> id_key ` set (questions
       (snd (addQuestion mathForm 1700000000000 1700000000000 (initialState 0 0))))"
  by (simp add: addQuestion_def newQuestion_def)

text \<open>
  Claim C7, as the code has it: for every store state and every input record,
  \<^verbatim>\<open>addQuestion\<close> returns no value and appends exactly one record at the end: the length
  grows by one and the former records stay in place, unchanged. The new record has the
  fields of the input, the time of the call as \<^verbatim>\<open>createdAt\<close>, and as id the decimal
  digits of the clock's reading in milliseconds. That id differs from every id in the
  collection whenever each of those is the decimal form of a strictly earlier reading.
\<close>

theorem addQuestion_appends:
  "fst (addQuestion q now date state) = Returns Undefined \<and>
   length (questions (snd (addQuestion q now date state))) = Suc (length (questions state)) \<and>
   take (length (questions state)) (questions (snd (addQuestion q now date state)))
     = questions state \<and>
   type (last (questions (snd (addQuestion q now date state)))) = type q \<and>
   question (last (questions (snd (addQuestion q now date state)))) = question q \<and>
   options (last (questions (snd (addQuestion q now date state)))) = options q \<and>
   correctAnswer (last (questions (snd (addQuestion q now date state)))) = correctAnswer q \<and>
   difficulty (last (questions (snd (addQuestion q now date state)))) = difficulty q \<and>
   category (last (questions (snd (addQuestion q now date state)))) = category q \<and>
   id_key (last (questions (snd (addQuestion q now date state)))) = toString now \<and>
   createdAt (last (questions (snd (addQuestion q now date state)))) = date \<and>
   ((\<forall>r \<in> set (questions state). \<exists>t < now. id_key r = toString t) \<longrightarrow>
      id_key (last (questions (snd (addQuestion q now date state))))
        \<notin> id_key ` set (questions state))"
proof -
  have "toString now \<notin> id_key ` set (questions state)"
    if h: "\<forall>r \<in> set (questions state). \<exists>t < now. id_key r = toString t"
  proof
    assume "toString now \<in> id_key ` set (questions state)"
    then obtain r where r: "r \<in> set (questions state)" and e: "id_key r = toString now"
      by auto
    from h r obtain t where t: "t < now" and "id_key r = toString t"
      by blast
    with e have "toString t = toString now" by simp
    then have "t = now" by (rule toString_inj)
    with t show False by simp
  qed
  then show ?thesis
    by (simp add: addQuestion_def newQuestion_def)
qed

theorem addQuestion_appends_witness:
  "map id_key (questions (snd (addQuestion mathForm 1700000000000 1700000000001 (initialState 0 0))))
     = [''1'', ''2'', ''1700000000000''] \<and>
   id_key (last (questions (snd (addQuestion mathForm 1700000000000 1700000000001 (initialState 0 0)))))
     \<notin> id_key ` set (questions (initialState 0 0))"
proof -
  have a: "\<exists>t < 1700000000000. ''1'' = toString t"
    by (rule exI [of _ 1]) (simp add: toString_1)
  have b: "\<exists>t < 1700000000000. ''2'' = toString t"
    by (rule exI [of _ 2]) (simp add: toString_2)
  have h: "\<forall>r \<in> set (questions (initialState 0 0)). \<exists>t < 1700000000000. id_key r = toString t"
    using a b by (simp add: initialState_def)
  note t = addQuestion_appends [of mathForm 1700000000000 1700000000001 "initialState 0 0"]
  from t have "(\<forall>r \<in> set (questions (initialState 0 0)). \<exists>t < 1700000000000. id_key r = toString t) \<longrightarrow>
     id_key (last (questions (snd (addQuestion mathForm 1700000000000 1700000000001 (initialState 0 0)))))
     \<notin> id_key ` set (questions (initialState 0 0))"
    by (elim conjE) assumption
  from this h
  have f: "id_key (last (questions (snd (addQuestion mathForm 1700000000000 1700000000001 (initialState 0 0)))))
     \<notin> id_key ` set (questions (initialState 0 0))"
    by (rule mp)
  have m: "map id_key (questions (snd (addQuestion mathForm 1700000000000 1700000000001 (initialState 0 0))))
     = [''1'', ''2'', ''1700000000000'']"
    by (simp add: addQuestion_def newQuestion_def initialState_def toString_sample)
  from m f show ?thesis by (rule conjI)
qed

end
